theory Spec2Isabelle
  imports Complex_Main "HOL-Library.Monad_Syntax"
begin

section \<open>JavaScript values as the reporter uses them\<close>

text \<open>
  The reporter is one JavaScript module, \<^verbatim>\<open>k6-modern-reporter.js\<close>. Its numbers are
  IEEE doubles; the model takes them as exact rationals, with \<open>NaN\<close> as a value of its
  own, so the rounding of doubles, negative zero and the infinities are outside the model.
  A thrown \<^verbatim>\<open>TypeError\<close> (reading a property of \<^verbatim>\<open>undefined\<close>) is the result
  \<open>None\<close> of a function into \<open>option\<close>. Writing to the console is not modelled.
\<close>

datatype jsnum = NaN | Num rat

datatype jsval = VUndefined | VNull | VBool bool | VNum jsnum | VStr string

text \<open>
  What the host decides and the module cannot: how a number that is not a plain integer
  below \<open>10^21\<close> prints (the shortest digits that identify the double), the locale's
  number format, and the two readings of the clock.
\<close>

record host =
  printNumber :: "rat \<Rightarrow> string"
  localeNumber :: "rat \<Rightarrow> string"
  isoNow :: string
  localeNow :: string

subsection \<open>Decimal digits\<close>

definition digitChar :: "nat \<Rightarrow> char" where
  "digitChar d = ''0123456789'' ! d"

fun digits :: "nat \<Rightarrow> string" where
  "digits n = (if n < 10 then [digitChar n] else digits (n div 10) @ [digitChar (n mod 10)])"

declare digits.simps [simp del]

definition isDigit :: "char \<Rightarrow> bool" where
  "isDigit c = (c \<in> set ''0123456789'')"

definition digitVal :: "char \<Rightarrow> nat" where
  "digitVal c = of_char c - 48"

definition digitsVal :: "string \<Rightarrow> nat" where
  "digitsVal s = foldl (\<lambda>a c. 10 * a + digitVal c) 0 s"

subsection \<open>Number to string\<close>

text \<open>
  \<^verbatim>\<open>Number::toString\<close>: an integer of magnitude below \<open>10^21\<close> prints as its decimal
  digits; every other number prints as the host says.
\<close>

definition numberToString :: "host \<Rightarrow> rat \<Rightarrow> string" where
  "numberToString H x =
     (if x = of_int \<lfloor>x\<rfloor> \<and> \<bar>x\<bar> < 10 ^ 21
      then (if x < 0 then ''-'' else '''') @ digits (nat \<lfloor>\<bar>x\<bar>\<rfloor>)
      else printNumber H x)"

text \<open>
  \<^verbatim>\<open>Number.prototype.toFixed(f)\<close>, step by step as ECMA-262 gives it: \<open>NaN\<close> prints as
  \<^verbatim>\<open>"NaN"\<close>; the sign is split off; a magnitude of \<open>10^21\<close> or more prints as
  \<^verbatim>\<open>Number::toString\<close> does; otherwise \<open>n\<close> is the integer nearest to
  \<open>x * 10^f\<close> (the larger one of two), printed with at least \<open>f + 1\<close> digits and a
  point before the last \<open>f\<close>.
\<close>

definition toFixed :: "host \<Rightarrow> nat \<Rightarrow> jsnum \<Rightarrow> string" where
  "toFixed H f v =
     (case v of
        NaN \<Rightarrow> ''NaN''
      | Num x \<Rightarrow>
          (let s = (if x < 0 then ''-'' else ''''); a = \<bar>x\<bar> in
           if 10 ^ 21 \<le> a then s @ numberToString H a
           else
             (let n = nat \<lfloor>a * 10 ^ f + 1 / 2\<rfloor>;
                  m = (if n = 0 then ''0'' else digits n);
                  z = replicate (f + 1 - length m) (CHR ''0'') @ m;
                  k = length z
              in if f \<noteq> 0 then s @ take (k - f) z @ ''.'' @ drop (k - f) z else s @ m)))"

subsection \<open>String to number\<close>

text \<open>
  Reading a decimal literal off the start of a string: digits, an optional fraction, and
  an exponent when digits follow its sign. The result is the value and the text that is
  left; \<open>None\<close> when the string starts with no digit at all.
\<close>

definition scanExponent :: "rat \<Rightarrow> string \<Rightarrow> rat \<times> string" where
  "scanExponent m r =
     (case r of
        [] \<Rightarrow> (m, r)
      | c # t \<Rightarrow>
          if c = CHR ''e'' \<or> c = CHR ''E'' then
            (let neg = (t \<noteq> [] \<and> hd t = CHR ''-'');
                 u = (if t \<noteq> [] \<and> (hd t = CHR ''-'' \<or> hd t = CHR ''+'') then tl t else t);
                 ds = takeWhile isDigit u
             in if ds = [] then (m, r)
                else if neg then (m / 10 ^ digitsVal ds, dropWhile isDigit u)
                else (m * 10 ^ digitsVal ds, dropWhile isDigit u))
          else (m, r))"

definition scanDecimal :: "string \<Rightarrow> (rat \<times> string) option" where
  "scanDecimal s =
     (let ip = takeWhile isDigit s;
          r1 = dropWhile isDigit s;
          dot = (r1 \<noteq> [] \<and> hd r1 = CHR ''.'');
          fp = (if dot then takeWhile isDigit (tl r1) else []);
          r2 = (if dot then dropWhile isDigit (tl r1) else r1);
          m = of_nat (digitsVal ip) + of_nat (digitsVal fp) / 10 ^ length fp
      in if ip = [] \<and> fp = [] then None else Some (scanExponent m r2))"

definition jsNeg :: "jsnum \<Rightarrow> jsnum" where
  "jsNeg v = (case v of NaN \<Rightarrow> NaN | Num x \<Rightarrow> Num (- x))"

text \<open>
  \<^verbatim>\<open>StringToNumber\<close>, for the strings that \<^verbatim>\<open>toFixed\<close> prints: an optional sign and
  a decimal literal that takes up the whole string. The empty string reads as 0; anything
  else is \<open>NaN\<close>. (White space, \<^verbatim>\<open>Infinity\<close> and the prefixed radix forms, which
  JavaScript also reads, never come out of \<^verbatim>\<open>toFixed\<close>.)
\<close>

definition wholeLiteral :: "string \<Rightarrow> jsnum" where
  "wholeLiteral s =
     (case scanDecimal s of
        None \<Rightarrow> NaN
      | Some (x, r) \<Rightarrow> if r = [] then Num x else NaN)"

definition stringToNumber :: "string \<Rightarrow> jsnum" where
  "stringToNumber s =
     (case s of
        [] \<Rightarrow> Num 0
      | c # t \<Rightarrow>
          if c = CHR ''-'' then jsNeg (wholeLiteral t)
          else if c = CHR ''+'' then wholeLiteral t
          else wholeLiteral s)"

text \<open>
  \<^verbatim>\<open>parseFloat\<close> on a string: an optional sign and the longest decimal literal at the
  start; what follows is ignored.
\<close>

definition prefixLiteral :: "string \<Rightarrow> jsnum" where
  "prefixLiteral s = (case scanDecimal s of None \<Rightarrow> NaN | Some (x, r) \<Rightarrow> Num x)"

definition parseFloatString :: "string \<Rightarrow> jsnum" where
  "parseFloatString s =
     (case s of
        [] \<Rightarrow> NaN
      | c # t \<Rightarrow>
          if c = CHR ''-'' then jsNeg (prefixLiteral t)
          else if c = CHR ''+'' then prefixLiteral t
          else prefixLiteral s)"

text \<open>\<^verbatim>\<open>ToNumber\<close> on the values of the model.\<close>

definition toNumber :: "jsval \<Rightarrow> jsnum" where
  "toNumber v =
     (case v of
        VUndefined \<Rightarrow> NaN
      | VNull \<Rightarrow> Num 0
      | VBool b \<Rightarrow> Num (if b then 1 else 0)
      | VNum n \<Rightarrow> n
      | VStr s \<Rightarrow> stringToNumber s)"

definition jsAdd :: "jsnum \<Rightarrow> jsnum \<Rightarrow> jsnum" where
  "jsAdd a b = (case (a, b) of (Num x, Num y) \<Rightarrow> Num (x + y) | _ \<Rightarrow> NaN)"

definition jsSub :: "jsnum \<Rightarrow> jsnum \<Rightarrow> jsnum" where
  "jsSub a b = (case (a, b) of (Num x, Num y) \<Rightarrow> Num (x - y) | _ \<Rightarrow> NaN)"

text \<open>\<^verbatim>\<open>a > b\<close> on numbers: false as soon as one side is \<open>NaN\<close>.\<close>

definition jsGt :: "jsnum \<Rightarrow> jsnum \<Rightarrow> bool" where
  "jsGt a b = (case (a, b) of (Num x, Num y) \<Rightarrow> y < x | _ \<Rightarrow> False)"

text \<open>
  \<^verbatim>\<open>parseInt(x)\<close> on a non-negative number \<open>x\<close>: the number is printed, and the longest
  run of digits at the start of the print is read back; no digit there gives \<open>NaN\<close>.
  (The sign, white space and the \<^verbatim>\<open>0x\<close> prefix that \<^verbatim>\<open>parseInt\<close> also accepts do
  not occur at the start of such a print.)
\<close>

definition parseIntString :: "string \<Rightarrow> jsnum" where
  "parseIntString s =
     (let ds = takeWhile isDigit s in if ds = [] then NaN else Num (of_nat (digitsVal ds)))"

definition parseInt :: "host \<Rightarrow> rat \<Rightarrow> jsnum" where
  "parseInt H x = parseIntString (numberToString H x)"

text \<open>\<^verbatim>\<open>Math.round\<close>: the nearest integer, a tie going up.\<close>

definition Math_round :: "rat \<Rightarrow> rat" where
  "Math_round x = of_int \<lfloor>x + 1 / 2\<rfloor>"

text \<open>\<^verbatim>\<open>v || 0\<close> on a numeric field that may be absent: absent and 0 both give 0.\<close>

definition orZero :: "rat option \<Rightarrow> rat" where
  "orZero v = (case v of None \<Rightarrow> 0 | Some x \<Rightarrow> x)"

section \<open>The summary\<close>

text \<open>
  The object k6 hands to \<^verbatim>\<open>handleSummary\<close>. Every field may be absent (\<open>None\<close> is
  \<^verbatim>\<open>undefined\<close>); a field that is present has the shape the reporter expects. An
  object is the list of its entries in enumeration order, with distinct keys; the
  \<^verbatim>\<open>values\<close> of a metric are only ever read by name, so they are a map.
\<close>

record ThresholdResult =
  ok :: "bool option"

record Metric =
  metric_values :: "(string \<rightharpoonup> rat) option"
  thresholds :: "(string \<times> ThresholdResult) list option"

record Check =
  check_name :: "string option"
  passes :: "nat option"
  fails :: "nat option"

datatype Group = Group (group_name: "string option") (checks: "Check list option")
  (groups: "Group list option")

record Summary =
  metrics :: "(string \<times> Metric) list option"
  root_group :: "Group option"

section \<open>calculateStats\<close>

text \<open>
  The \<^verbatim>\<open>stats\<close> object. A field assigned from \<^verbatim>\<open>toFixed\<close> holds a string from then
  on and the number 0 before, so these fields are \<open>jsval\<close>; the check tallies are sums of
  \<^verbatim>\<open>parseInt\<close> results, so they are \<open>jsnum\<close>.
\<close>

record DerivedStats =
  totalRequests :: rat
  successfulRequests :: rat
  failedRequests :: rat
  successRate :: jsval
  errorRate :: jsval
  avgResponseTime :: jsval
  p95ResponseTime :: jsval
  maxResponseTime :: jsval
  minResponseTime :: jsval
  thresholdFailures :: nat
  thresholdCount :: nat
  checkFailures :: jsnum
  checkPasses :: jsnum
  totalChecks :: jsnum
  maxVUs :: rat
  avgVUs :: jsval
  iterations :: rat
  dataReceived :: jsval
  dataSent :: jsval
  testDuration :: rat

definition initialStats :: DerivedStats where
  "initialStats =
     \<lparr> totalRequests = 0, successfulRequests = 0, failedRequests = 0,
       successRate = VNum (Num 0), errorRate = VNum (Num 0),
       avgResponseTime = VNum (Num 0), p95ResponseTime = VNum (Num 0),
       maxResponseTime = VNum (Num 0), minResponseTime = VNum (Num 0),
       thresholdFailures = 0, thresholdCount = 0,
       checkFailures = Num 0, checkPasses = Num 0, totalChecks = Num 0,
       maxVUs = 0, avgVUs = VNum (Num 0), iterations = 0,
       dataReceived = VNum (Num 0), dataSent = VNum (Num 0), testDuration = 0 \<rparr>"

text \<open>
  \<^verbatim>\<open>if (data.metrics.NAME) { ... data.metrics.NAME.values.FIELD ... }\<close>: nothing happens
  when the metric is absent; when it is present its \<^verbatim>\<open>values\<close> are read without a
  guard, which throws if they are absent.
\<close>

definition ifMetric ::
  "(string \<times> Metric) list \<Rightarrow> string \<Rightarrow> ((string \<rightharpoonup> rat) \<Rightarrow> DerivedStats \<Rightarrow> DerivedStats)
     \<Rightarrow> DerivedStats \<Rightarrow> DerivedStats option" where
  "ifMetric ms name f stats =
     (case map_of ms name of
        None \<Rightarrow> Some stats
      | Some m \<Rightarrow> (case metric_values m of None \<Rightarrow> None | Some v \<Rightarrow> Some (f v stats)))"

definition requestCount :: "(string \<rightharpoonup> rat) \<Rightarrow> DerivedStats \<Rightarrow> DerivedStats" where
  "requestCount v stats = stats\<lparr>totalRequests := orZero (v ''count'')\<rparr>"

definition failureRates :: "host \<Rightarrow> (string \<rightharpoonup> rat) \<Rightarrow> DerivedStats \<Rightarrow> DerivedStats" where
  "failureRates H v stats =
     (let failed = Math_round (orZero (v ''rate'') * totalRequests stats);
          err = toFixed H 2 (Num (orZero (v ''rate'') * 100))
      in stats\<lparr>failedRequests := failed,
               successfulRequests := totalRequests stats - failed,
               errorRate := VStr err,
               successRate := VStr (toFixed H 2 (jsSub (Num 100) (toNumber (VStr err))))\<rparr>)"

definition responseTimes :: "host \<Rightarrow> (string \<rightharpoonup> rat) \<Rightarrow> DerivedStats \<Rightarrow> DerivedStats" where
  "responseTimes H duration stats =
     stats\<lparr>avgResponseTime := VStr (toFixed H 2 (Num (orZero (duration ''avg'')))),
           p95ResponseTime := VStr (toFixed H 2 (Num (orZero (duration ''p(95)'')))),
           maxResponseTime := VStr (toFixed H 2 (Num (orZero (duration ''max'')))),
           minResponseTime := VStr (toFixed H 2 (Num (orZero (duration ''min''))))\<rparr>"

definition virtualUsers :: "host \<Rightarrow> (string \<rightharpoonup> rat) \<Rightarrow> DerivedStats \<Rightarrow> DerivedStats" where
  "virtualUsers H v stats =
     stats\<lparr>maxVUs := orZero (v ''max''),
           avgVUs := VStr (toFixed H 0 (Num (orZero (v ''avg''))))\<rparr>"

definition iterationCount :: "(string \<rightharpoonup> rat) \<Rightarrow> DerivedStats \<Rightarrow> DerivedStats" where
  "iterationCount v stats = stats\<lparr>iterations := orZero (v ''count'')\<rparr>"

text \<open>
  \<^verbatim>\<open>(values.count / 1000000).toFixed(2)\<close>: there is no \<^verbatim>\<open>|| 0\<close> here, and
  \<^verbatim>\<open>undefined / 1000000\<close> is \<open>NaN\<close>.
\<close>

definition megabytes :: "host \<Rightarrow> rat option \<Rightarrow> string" where
  "megabytes H c = toFixed H 2 (case c of None \<Rightarrow> NaN | Some b \<Rightarrow> Num (b / 1000000))"

definition received :: "host \<Rightarrow> (string \<rightharpoonup> rat) \<Rightarrow> DerivedStats \<Rightarrow> DerivedStats" where
  "received H v stats = stats\<lparr>dataReceived := VStr (megabytes H (v ''count''))\<rparr>"

definition sent :: "host \<Rightarrow> (string \<rightharpoonup> rat) \<Rightarrow> DerivedStats \<Rightarrow> DerivedStats" where
  "sent H v stats = stats\<lparr>dataSent := VStr (megabytes H (v ''count''))\<rparr>"

text \<open>
  The two nested \<^verbatim>\<open>for ... in\<close> loops over the metrics and over the thresholds of each.
  \<^verbatim>\<open>if (thresholds)\<close> holds for every object, the empty one too; \<^verbatim>\<open>!t.ok\<close> holds
  when \<^verbatim>\<open>ok\<close> is false or absent.
\<close>

definition countThreshold :: "string \<times> ThresholdResult \<Rightarrow> DerivedStats \<Rightarrow> DerivedStats" where
  "countThreshold e stats =
     (if ok (snd e) = Some True then stats
      else stats\<lparr>thresholdFailures := thresholdFailures stats + 1\<rparr>)"

definition countMetric :: "string \<times> Metric \<Rightarrow> DerivedStats \<Rightarrow> DerivedStats" where
  "countMetric e stats =
     (case thresholds (snd e) of
        None \<Rightarrow> stats
      | Some ts \<Rightarrow> fold countThreshold ts (stats\<lparr>thresholdCount := thresholdCount stats + 1\<rparr>))"

text \<open>\<^verbatim>\<open>countChecks\<close>: the loop carries \<^verbatim>\<open>passes\<close> and \<^verbatim>\<open>fails\<close>.\<close>

definition natOrZero :: "nat option \<Rightarrow> rat" where
  "natOrZero v = (case v of None \<Rightarrow> 0 | Some n \<Rightarrow> of_nat n)"

fun countChecksFrom :: "host \<Rightarrow> jsnum \<times> jsnum \<Rightarrow> Check list \<Rightarrow> jsnum \<times> jsnum" where
  "countChecksFrom H (p, f) [] = (p, f)"
| "countChecksFrom H (p, f) (c # cs) =
     countChecksFrom H
       (jsAdd p (parseInt H (natOrZero (passes c))), jsAdd f (parseInt H (natOrZero (fails c)))) cs"

definition countChecks :: "host \<Rightarrow> Check list \<Rightarrow> jsnum \<times> jsnum" where
  "countChecks H cs = countChecksFrom H (Num 0, Num 0) cs"

definition addChecks :: "host \<Rightarrow> Check list option \<Rightarrow> DerivedStats \<Rightarrow> DerivedStats" where
  "addChecks H cs stats =
     (case cs of
        None \<Rightarrow> stats
      | Some l \<Rightarrow>
          stats\<lparr>checkPasses := jsAdd (checkPasses stats) (fst (countChecks H l)),
                checkFailures := jsAdd (checkFailures stats) (snd (countChecks H l))\<rparr>)"

definition groupsOrEmpty :: "Group list option \<Rightarrow> Group list" where
  "groupsOrEmpty gs = (case gs of None \<Rightarrow> [] | Some l \<Rightarrow> l)"

definition calculateStats :: "host \<Rightarrow> Summary \<Rightarrow> DerivedStats option" where
  "calculateStats H data = do {
     ms \<leftarrow> metrics data;
     s1 \<leftarrow> ifMetric ms ''http_reqs'' requestCount initialStats;
     s2 \<leftarrow> ifMetric ms ''http_req_failed'' (failureRates H) s1;
     s3 \<leftarrow> ifMetric ms ''http_req_duration'' (responseTimes H) s2;
     s4 \<leftarrow> ifMetric ms ''vus'' (virtualUsers H) s3;
     s5 \<leftarrow> ifMetric ms ''iterations'' iterationCount s4;
     s6 \<leftarrow> ifMetric ms ''data_received'' (received H) s5;
     s7 \<leftarrow> ifMetric ms ''data_sent'' (sent H) s6;
     let s8 = fold countMetric ms s7;
     rg \<leftarrow> root_group data;
     let s9 = addChecks H (checks rg) s8;
     let s10 = fold (\<lambda>g. addChecks H (checks g)) (groupsOrEmpty (groups rg)) s9;
     Some (s10\<lparr>totalChecks := jsAdd (checkPasses s10) (checkFailures s10)\<rparr>)
   }"

section \<open>Strings in the document\<close>

text \<open>
  \<^verbatim>\<open>String(v)\<close>, which is also what a template literal does to an interpolated value.
\<close>

definition jsString :: "host \<Rightarrow> jsval \<Rightarrow> string" where
  "jsString H v =
     (case v of
        VUndefined \<Rightarrow> ''undefined''
      | VNull \<Rightarrow> ''null''
      | VBool b \<Rightarrow> (if b then ''true'' else ''false'')
      | VNum n \<Rightarrow> (case n of NaN \<Rightarrow> ''NaN'' | Num x \<Rightarrow> numberToString H x)
      | VStr s \<Rightarrow> s)"

definition parseFloat :: "host \<Rightarrow> jsval \<Rightarrow> jsnum" where
  "parseFloat H v = parseFloatString (jsString H v)"

definition optString :: "string option \<Rightarrow> jsval" where
  "optString s = (case s of None \<Rightarrow> VUndefined | Some t \<Rightarrow> VStr t)"

definition optCount :: "nat option \<Rightarrow> jsval" where
  "optCount n = (case n of None \<Rightarrow> VUndefined | Some k \<Rightarrow> VNum (Num (of_nat k)))"

subsection \<open>escapeHtml\<close>

text \<open>
  The character class of the regular expression \<^verbatim>\<open>/[&<>"']/g\<close>, the object \<^verbatim>\<open>map\<close>,
  and \<^verbatim>\<open>String(text).replace(..., m => map[m])\<close>: the string is scanned from the left and
  each character of the class is replaced by what \<^verbatim>\<open>map\<close> holds for it (a key that
  \<^verbatim>\<open>map\<close> lacked would print as \<^verbatim>\<open>undefined\<close>).
\<close>

definition specials :: "char list" where
  "specials = [CHR ''&'', CHR ''<'', CHR ''>'', CHR 0x22, CHR 0x27]"

definition entityMap :: "(char \<times> string) list" where
  "entityMap =
     [(CHR ''&'', ''&amp;''),
      (CHR ''<'', ''&lt;''),
      (CHR ''>'', ''&gt;''),
      (CHR 0x22, ''&quot;''),
      (CHR 0x27, ''&#039;'')]"

fun replaceSpecials :: "string \<Rightarrow> string" where
  "replaceSpecials [] = []"
| "replaceSpecials (m # rest) =
     (if m \<in> set specials
      then (case map_of entityMap m of None \<Rightarrow> ''undefined'' | Some e \<Rightarrow> e)
      else [m]) @ replaceSpecials rest"

definition escapeHtml :: "host \<Rightarrow> jsval \<Rightarrow> string" where
  "escapeHtml H t = replaceSpecials (jsString H t)"

section \<open>The section builders\<close>

text \<open>
  Each \<^verbatim>\<open>html += ...\<close> is one operand of \<open>@\<close>, in the order of the source; a loop that
  appends one fragment per element is \<open>concat (map ...)\<close>.
\<close>

definition standardMetrics :: "string list" where
  "standardMetrics =
     [''http_req_duration'',
      ''http_req_waiting'',
      ''http_req_connecting'',
      ''http_req_tls_handshaking'',
      ''http_req_sending'',
      ''http_req_receiving'',
      ''http_req_blocked'',
      ''iteration_duration'']"

definition metricRow :: "host \<Rightarrow> string \<Rightarrow> (string \<rightharpoonup> rat) \<Rightarrow> string" where
  \<open>metricRow H metricName vals =
       ''<tr>'' @
       ''<td><strong>'' @
       metricName @
       ''</strong></td>'' @
       ''<td>'' @
       toFixed H 2 (Num (orZero (vals ''avg''))) @
       ''</td>'' @
       ''<td class="metric-value-good">'' @
       toFixed H 2 (Num (orZero (vals ''min''))) @
       ''</td>'' @
       ''<td>'' @
       toFixed H 2 (Num (orZero (vals ''med''))) @
       ''</td>'' @
       ''<td class="metric-value-bad">'' @
       toFixed H 2 (Num (orZero (vals ''max''))) @
       ''</td>'' @
       ''<td>'' @
       toFixed H 2 (Num (orZero (vals ''p(90)''))) @
       ''</td>'' @
       ''<td>'' @
       toFixed H 2 (Num (orZero (vals ''p(95)''))) @
       ''</td>'' @
       ''</tr>''\<close>

fun metricRows :: "host \<Rightarrow> (string \<times> Metric) list \<Rightarrow> string list \<Rightarrow> string option" where
  "metricRows H ms [] = Some []"
| "metricRows H ms (metricName # rest) =
     (case map_of ms metricName of
        None \<Rightarrow> metricRows H ms rest
      | Some metric \<Rightarrow>
          (case metric_values metric of
             None \<Rightarrow> None
           | Some vals \<Rightarrow> map_option ((@) (metricRow H metricName vals)) (metricRows H ms rest)))"

definition generateMetricsTable :: "host \<Rightarrow> Summary \<Rightarrow> string option" where
  \<open>generateMetricsTable H data =
     (case metrics data of
        None \<Rightarrow> None
      | Some ms \<Rightarrow>
          map_option
            (\<lambda>rows.
               ''<div class="chart-container"><h3 class="chart-title">HTTP Request Metrics</h3>'' @
               ''<table class="metrics-table"><thead><tr>'' @
               ''<th>Metric</th><th>Avg</th><th>Min</th><th>Med</th><th>Max</th><th>P90</th><th>P95</th>'' @
               ''</tr></thead><tbody>'' @
               rows @
               ''</tbody></table></div>'' @
               ''<p style="margin-top: 10px; color: #6c757d; font-size: 0.9em;"><i class="fas fa-info-circle"></i> All times are in milliseconds</p>'')
            (metricRows H ms standardMetrics))\<close>

definition renderCheck :: "host \<Rightarrow> Check \<Rightarrow> string" where
  \<open>renderCheck H check =
       ''<div class="check-item">'' @
       ''<div class="check-name">'' @
       escapeHtml H (optString (check_name check)) @
       ''</div>'' @
       ''<div class="check-stats">'' @
       ''<span class="badge badge-success"><i class="fas fa-check"></i> '' @
       jsString H (optCount (passes check)) @
       '' passed</span>'' @
       (if (case fails check of None \<Rightarrow> False | Some n \<Rightarrow> 0 < n) then
          ''<span class="badge badge-error"><i class="fas fa-times"></i> '' @
          jsString H (optCount (fails check)) @
          '' failed</span>''
        else []) @
       ''</div></div>''\<close>

definition renderGroup :: "host \<Rightarrow> Group \<Rightarrow> string" where
  \<open>renderGroup H grp =
       ''<div class="chart-container">'' @
       ''<h3 class="chart-title"><i class="fas fa-layer-group"></i> Group: '' @
       escapeHtml H (optString (group_name grp)) @
       ''</h3>'' @
       (case checks grp of
          None \<Rightarrow> ''<p style="color: #6c757d;">No checks in this group</p>''
        | Some cs \<Rightarrow>
            if cs \<noteq> [] then concat (map (renderCheck H) cs)
            else ''<p style="color: #6c757d;">No checks in this group</p>'') @
       ''</div>''\<close>

definition generateChecksSection :: "host \<Rightarrow> Summary \<Rightarrow> string option" where
  \<open>generateChecksSection H data =
     (case root_group data of
        None \<Rightarrow> None
      | Some rg \<Rightarrow>
          (let html1 = concat (map (renderGroup H) (groupsOrEmpty (groups rg)));
               html2 =
                 (case checks rg of
                    None \<Rightarrow> html1
                  | Some cs \<Rightarrow>
                      if cs \<noteq> [] then
                        html1 @
                        ''<div class="chart-container">'' @
                        ''<h3 class="chart-title"><i class="fas fa-list-check"></i> Other Checks</h3>'' @
                        concat (map (renderCheck H) cs) @
                        ''</div>''
                      else html1)
           in Some (if html2 = [] then
                      ''<div class="chart-container"><p style="color: #6c757d;">No checks configured for this test</p></div>''
                    else html2)))\<close>

definition thresholdCard :: "host \<Rightarrow> string \<Rightarrow> string \<Rightarrow> bool \<Rightarrow> string" where
  \<open>thresholdCard H metricName thresholdName isPassed =
       ''<div class="check-item" style="border-left: 4px solid '' @
       (if isPassed then ''#28a745'' else ''#dc3545'') @
       '';">'' @
       ''<div style="flex: 1;">'' @
       ''<div style="font-weight: 600; margin-bottom: 5px;">'' @
       ''<i class="fas fa-'' @
       (if isPassed then ''check-circle'' else ''times-circle'') @
       ''" style="color: '' @
       (if isPassed then ''#28a745'' else ''#dc3545'') @
       '';"></i> '' @
       escapeHtml H (VStr metricName) @
       ''</div>'' @
       ''<div style="color: #6c757d; font-size: 0.9em; font-family: monospace;">'' @
       escapeHtml H (VStr thresholdName) @
       ''</div>'' @
       ''</div>'' @
       ''<div class="check-stats">'' @
       (if isPassed then
          ''<span class="badge badge-success">'' @
          ''<i class="fas fa-check"></i> PASSED'' @
          ''</span>''
        else
          ''<span class="badge badge-error">'' @
          ''<i class="fas fa-times"></i> FAILED'' @
          ''</span>'') @
       ''</div>'' @
       ''</div>''\<close>

record thresholdLoop =
  html :: string
  hasThresholds :: bool
  passedCount :: nat
  failedCount :: nat

definition thresholdStep :: "host \<Rightarrow> string \<Rightarrow> string \<times> ThresholdResult \<Rightarrow> thresholdLoop \<Rightarrow> thresholdLoop" where
  "thresholdStep H metricName e st =
     (let isPassed = (ok (snd e) = Some True) in
      st\<lparr>passedCount := (if isPassed then passedCount st + 1 else passedCount st),
         failedCount := (if isPassed then failedCount st else failedCount st + 1),
         html := html st @ thresholdCard H metricName (fst e) isPassed\<rparr>)"

definition metricStep :: "host \<Rightarrow> string \<times> Metric \<Rightarrow> thresholdLoop \<Rightarrow> thresholdLoop" where
  "metricStep H e st =
     (case thresholds (snd e) of
        None \<Rightarrow> st
      | Some ts \<Rightarrow> fold (thresholdStep H (fst e)) ts (st\<lparr>hasThresholds := True\<rparr>))"

text \<open>\<^verbatim>\<open>s.indexOf(pat)\<close> and \<^verbatim>\<open>s.substring(i)\<close>.\<close>

fun indexOfFrom :: "string \<Rightarrow> string \<Rightarrow> nat \<Rightarrow> int" where
  "indexOfFrom pat [] i = (if pat = [] then int i else - 1)"
| "indexOfFrom pat (c # cs) i =
     (if take (length pat) (c # cs) = pat then int i else indexOfFrom pat cs (i + 1))"

definition indexOf :: "string \<Rightarrow> string \<Rightarrow> int" where
  "indexOf s pat = indexOfFrom pat s 0"

definition substring :: "string \<Rightarrow> int \<Rightarrow> string" where
  "substring s i = drop (nat i) s"

text \<open>
  \<^verbatim>\<open>for ... in\<close> over \<^verbatim>\<open>undefined\<close> runs no iteration and throws nothing, so this
  builder returns for absent metrics too.
\<close>

definition generateThresholdsSection :: "host \<Rightarrow> Summary \<Rightarrow> string" where
  \<open>generateThresholdsSection H data =
     (let start =
            \<lparr>html =
               ''<div class="chart-container">'' @
               ''<h3 class="chart-title"><i class="fas fa-gauge-high"></i> Threshold Results</h3>'',
             hasThresholds = False, passedCount = 0, failedCount = 0\<rparr>;
          st = fold (metricStep H) (case metrics data of None \<Rightarrow> [] | Some ms \<Rightarrow> ms) start;
          html1 =
            (if \<not> hasThresholds st then
               html st @
               ''<p style="color: #6c757d; text-align: center; padding: 40px;">No thresholds configured for this test</p>''
             else
               ''<div class="chart-container">\<newline>'' @
               ''            <h3 class="chart-title"><i class="fas fa-gauge-high"></i> Threshold Results</h3>\<newline>'' @
               ''            <div style="display: grid; grid-template-columns: 1fr 1fr; gap: 20px; margin-bottom: 30px;">\<newline>'' @
               ''                <div style="background: linear-gradient(135deg, #d4edda 0%, #c3e6cb 100%); padding: 20px; border-radius: 10px; text-align: center;">\<newline>'' @
               ''                    <div style="font-size: 2.5em; font-weight: 700; color: #155724;">'' @
               jsString H (VNum (Num (of_nat (passedCount st)))) @
               ''</div>\<newline>'' @
               ''                    <div style="color: #155724; font-weight: 600;">Passed</div>\<newline>'' @
               ''                </div>\<newline>'' @
               ''                <div style="background: linear-gradient(135deg, #f8d7da 0%, #f5c6cb 100%); padding: 20px; border-radius: 10px; text-align: center;">\<newline>'' @
               ''                    <div style="font-size: 2.5em; font-weight: 700; color: #721c24;">'' @
               jsString H (VNum (Num (of_nat (failedCount st)))) @
               ''</div>\<newline>'' @
               ''                    <div style="color: #721c24; font-weight: 600;">Failed</div>\<newline>'' @
               ''                </div>\<newline>'' @
               ''            </div>'' @
               substring (html st) (indexOf (html st) ''</h3>'' + 5))
      in html1 @ ''</div>'')\<close>

definition infoRow :: "host \<Rightarrow> string \<times> jsval \<Rightarrow> string" where
  \<open>infoRow H e =
     (let key = fst e; v = snd e in
       ''<tr>'' @
       ''<td><i class="fas fa-caret-right" style="color: #667eea; margin-right: 8px;"></i>'' @
       escapeHtml H (VStr key) @
       ''</td>'' @
       ''<td>'' @
       escapeHtml H (VStr (jsString H v)) @
       ''</td>'' @
       ''</tr>'')\<close>

definition generateTestInfoSection :: "host \<Rightarrow> (string \<times> jsval) list \<Rightarrow> string" where
  \<open>generateTestInfoSection H additionalInfo =
       ''<div class="chart-container">'' @
       ''<h3 class="chart-title"><i class="fas fa-info-circle"></i> Test Configuration & Additional Information</h3>'' @
       ''<table class="info-table">'' @
       concat (map (infoRow H) additionalInfo) @
       ''</table>'' @
       ''</div>''\<close>


definition generateOverviewSection :: "host \<Rightarrow> DerivedStats \<Rightarrow> string" where
  \<open>generateOverviewSection H stats =
       ''\<newline>'' @
       ''        <div class="chart-container">\<newline>'' @
       ''            <h3 class="chart-title">Performance Overview</h3>\<newline>'' @
       ''            \<newline>'' @
       ''            <!-- Success Rate Progress Bar -->\<newline>'' @
       ''            <div style="margin: 30px 0;">\<newline>'' @
       ''                <div style="display: flex; justify-content: space-between; margin-bottom: 10px;">\<newline>'' @
       ''                    <span>Success Rate</span>\<newline>'' @
       ''                    <span class="metric-value-good">'' @
       jsString H (successRate stats) @
       ''%</span>\<newline>'' @
       ''                </div>\<newline>'' @
       ''                <div class="progress-bar">\<newline>'' @
       ''                    <div class="progress-fill" style="width: '' @
       jsString H (successRate stats) @
       ''%">'' @
       jsString H (successRate stats) @
       ''%</div>\<newline>'' @
       ''                </div>\<newline>'' @
       ''            </div>\<newline>'' @
       ''\<newline>'' @
       ''            <!-- Error Rate Progress Bar -->\<newline>'' @
       ''            <div style="margin: 30px 0;">\<newline>'' @
       ''                <div style="display: flex; justify-content: space-between; margin-bottom: 10px;">\<newline>'' @
       ''                    <span>Error Rate</span>\<newline>'' @
       ''                    <span class="metric-value-bad">'' @
       jsString H (errorRate stats) @
       ''%</span>\<newline>'' @
       ''                </div>\<newline>'' @
       ''                <div class="progress-bar">\<newline>'' @
       ''                    <div class="progress-fill error" style="width: '' @
       jsString H (errorRate stats) @
       ''%">'' @
       jsString H (errorRate stats) @
       ''%</div>\<newline>'' @
       ''                </div>\<newline>'' @
       ''            </div>\<newline>'' @
       ''\<newline>'' @
       ''            <!-- Response Time Statistics Grid -->\<newline>'' @
       ''            <div style="display: grid; grid-template-columns: repeat(auto-fit, minmax(200px, 1fr)); gap: 20px; margin-top: 30px;">\<newline>'' @
       ''                <!-- Minimum Response Time -->\<newline>'' @
       ''                <div style="text-align: center; padding: 20px; background: #f8f9fa; border-radius: 10px;">\<newline>'' @
       ''                    <div style="font-size: 0.9em; color: #6c757d; margin-bottom: 5px;">MIN</div>\<newline>'' @
       ''                    <div style="font-size: 1.8em; font-weight: 700; color: #28a745;">'' @
       jsString H (minResponseTime stats) @
       ''ms</div>\<newline>'' @
       ''                </div>\<newline>'' @
       ''                <!-- Average Response Time -->\<newline>'' @
       ''                <div style="text-align: center; padding: 20px; background: #f8f9fa; border-radius: 10px;">\<newline>'' @
       ''                    <div style="font-size: 0.9em; color: #6c757d; margin-bottom: 5px;">AVG</div>\<newline>'' @
       ''                    <div style="font-size: 1.8em; font-weight: 700, color: #667eea;">'' @
       jsString H (avgResponseTime stats) @
       ''ms</div>\<newline>'' @
       ''                </div>\<newline>'' @
       ''                <!-- 95th Percentile Response Time -->\<newline>'' @
       ''                <div style="text-align: center; padding: 20px; background: #f8f9fa; border-radius: 10px;">\<newline>'' @
       ''                    <div style="font-size: 0.9em; color: #6c757d; margin-bottom: 5px;">P95</div>\<newline>'' @
       ''                    <div style="font-size: 1.8em; font-weight: 700; color: #f2994a;">'' @
       jsString H (p95ResponseTime stats) @
       ''ms</div>\<newline>'' @
       ''                </div>\<newline>'' @
       ''                <!-- Maximum Response Time -->\<newline>'' @
       ''                <div style="text-align: center; padding: 20px; background: #f8f9fa; border-radius: 10px;">\<newline>'' @
       ''                    <div style="font-size: 0.9em; color: #6c757d; margin-bottom: 5px;">MAX</div>\<newline>'' @
       ''                    <div style="font-size: 1.8em; font-weight: 700; color: #dc3545;">'' @
       jsString H (maxResponseTime stats) @
       ''ms</div>\<newline>'' @
       ''                </div>\<newline>'' @
       ''            </div>\<newline>'' @
       ''        </div>\<newline>'' @
       ''\<newline>'' @
       ''        <!-- Data Transfer Statistics -->\<newline>'' @
       ''        <div class="chart-container">\<newline>'' @
       ''            <h3 class="chart-title">Data Transfer</h3>\<newline>'' @
       ''            <div style="display: grid; grid-template-columns: 1fr 1fr; gap: 30px; margin-top: 20px;">\<newline>'' @
       ''                <!-- Data Received -->\<newline>'' @
       ''                <div style="text-align: center;">\<newline>'' @
       ''                    <i class="fas fa-download" style="font-size: 3em; color: #667eea; opacity: 0.3;"></i>\<newline>'' @
       ''                    <div style="font-size: 2em; font-weight: 700; margin: 10px 0;">'' @
       jsString H (dataReceived stats) @
       '' MB</div>\<newline>'' @
       ''                    <div style="color: #6c757d;">Data Received</div>\<newline>'' @
       ''                </div>\<newline>'' @
       ''                <!-- Data Sent -->\<newline>'' @
       ''                <div style="text-align: center;">\<newline>'' @
       ''                    <i class="fas fa-upload" style="font-size: 3em; color: #764ba2; opacity: 0.3;"></i>\<newline>'' @
       ''                    <div style="font-size: 2em; font-weight: 700; margin: 10px 0;">'' @
       jsString H (dataSent stats) @
       '' MB</div>\<newline>'' @
       ''                    <div style="color: #6c757d;">Data Sent</div>\<newline>'' @
       ''                </div>\<newline>'' @
       ''            </div>\<newline>'' @
       ''        </div>\<newline>'' @
       ''    ''\<close>

definition statusBanner :: "bool \<Rightarrow> string" where
  \<open>statusBanner testStatus =
     (if testStatus then [CHR 0xE2, CHR 0x9C, CHR 0x85] @
          '' ALL TESTS PASSED''
      else [CHR 0xE2, CHR 0x9D, CHR 0x8C] @
          '' TESTS FAILED'')\<close>

definition headerBackground :: "bool \<Rightarrow> string" where
  \<open>headerBackground testStatus =
     (if testStatus then ''linear-gradient(135deg, #11998e 0%, #38ef7d 100%)''
      else ''linear-gradient(135deg, #eb3349 0%, #f45c43 100%)'')\<close>

definition methodBadge :: "string \<Rightarrow> string" where
  \<open>methodBadge httpMethod =
     (if httpMethod \<noteq> [] then
        ''<span class="http-method-badge method-'' @ httpMethod @ ''">'' @ httpMethod @ ''</span>''
      else ''<i class="fas fa-link"></i>'')\<close>

definition headerStatus :: "host \<Rightarrow> string \<Rightarrow> string \<Rightarrow> bool \<Rightarrow> string" where
  \<open>headerStatus H subtitle httpMethod testStatus =
     (if subtitle \<noteq> [] then
        ''\<newline>'' @
        ''                <div class="header-subtitle">\<newline>'' @
        ''                    '' @
        methodBadge httpMethod @
        ''\<newline>'' @
        ''                    '' @
        escapeHtml H (VStr subtitle) @
        ''\<newline>'' @
        ''                </div>\<newline>'' @
        ''                <span class="test-status" style="margin-top: 15px;">\<newline>'' @
        ''                    '' @
        statusBanner testStatus @
        ''\<newline>'' @
        ''                </span>\<newline>'' @
        ''                ''
      else
        ''\<newline>'' @
        ''                <span class="test-status">\<newline>'' @
        ''                    '' @
        statusBanner testStatus @
        ''\<newline>'' @
        ''                </span>\<newline>'' @
        ''                '')\<close>

definition testInfoButton :: string where
  \<open>testInfoButton =
       ''\<newline>'' @
       ''                <button class="tab-button" onclick="switchTab(event, '' @
       [CHR 0x27] @
       ''testinfo'' @
       [CHR 0x27] @
       '')">\<newline>'' @
       ''                    <i class="fas fa-info-circle"></i> Test Info\<newline>'' @
       ''                </button>\<newline>'' @
       ''                ''\<close>

definition testInfoPanel :: "string \<Rightarrow> string" where
  \<open>testInfoPanel body =
       ''\<newline>'' @
       ''            <div id="testinfo" class="tab-content">\<newline>'' @
       ''                '' @
       body @
       ''\<newline>'' @
       ''            </div>\<newline>'' @
       ''            ''\<close>


section \<open>The document\<close>

text \<open>
  \<^verbatim>\<open>testStatus\<close>, the first line of \<^verbatim>\<open>generateModernHTML\<close>: three strict
  comparisons with 0.
\<close>

definition testStatus :: "DerivedStats \<Rightarrow> bool" where
  "testStatus stats =
     (failedRequests stats = 0 \<and> checkFailures stats = Num 0 \<and> thresholdFailures stats = 0)"

text \<open>
  The template literal of \<^verbatim>\<open>generateModernHTML\<close> has 29 interpolations. Its fixed text
  (the style sheet, the frame of the page, the script) says nothing about the data, so it
  is a parameter: \<open>P i\<close> is the text before interpolation \<open>i\<close>, and \<open>P 29\<close> the text
  after the last. The interpolations are the source's, in its order. Two of the builders
  it calls can throw.
\<close>

type_synonym frame = "nat \<Rightarrow> string"

definition generateModernHTML ::
  "host \<Rightarrow> frame \<Rightarrow> Summary \<Rightarrow> string \<Rightarrow> string \<Rightarrow> string \<Rightarrow> (string \<times> jsval) list
     \<Rightarrow> DerivedStats \<Rightarrow> string option" where
  "generateModernHTML H P data title subtitle httpMethod additionalInfo stats =
     (case generateMetricsTable H data of
        None \<Rightarrow> None
      | Some metricsTable \<Rightarrow>
     (case generateChecksSection H data of
        None \<Rightarrow> None
      | Some checksSection \<Rightarrow>
          Some
           (P 0 @ escapeHtml H (VStr title) @
            P 1 @ headerBackground (testStatus stats) @
            P 2 @ escapeHtml H (VStr title) @
            P 3 @ headerStatus H subtitle httpMethod (testStatus stats) @
            P 4 @ localeNow H @
            P 5 @ (if failedRequests stats = 0 then ''success'' else ''error'') @
            P 6 @ localeNumber H (totalRequests stats) @
            P 7 @ localeNumber H (successfulRequests stats) @
            P 8 @ (if jsGt (toNumber (errorRate stats)) (Num 0) then ''error'' else ''success'') @
            P 9 @ jsString H (successRate stats) @
            P 10 @ jsString H (VNum (Num (failedRequests stats))) @
            P 11 @ (if jsGt (parseFloat H (avgResponseTime stats)) (Num 1000)
                    then ''warning'' else ''success'') @
            P 12 @ jsString H (avgResponseTime stats) @
            P 13 @ jsString H (p95ResponseTime stats) @
            P 14 @ jsString H (VNum (Num (maxVUs stats))) @
            P 15 @ jsString H (avgVUs stats) @
            P 16 @ (if jsGt (checkFailures stats) (Num 0) then ''error'' else ''success'') @
            P 17 @ jsString H (VNum (totalChecks stats)) @
            P 18 @ jsString H (VNum (checkPasses stats)) @
            P 19 @ jsString H (VNum (checkFailures stats)) @
            P 20 @ (if 0 < thresholdFailures stats then ''error'' else ''success'') @
            P 21 @ jsString H (VNum (Num (of_nat (thresholdFailures stats)))) @
            P 22 @ jsString H (VNum (Num (of_nat (thresholdCount stats)))) @
            P 23 @ (if additionalInfo \<noteq> [] then testInfoButton else []) @
            P 24 @ generateOverviewSection H stats @
            P 25 @ metricsTable @
            P 26 @ checksSection @
            P 27 @ generateThresholdsSection H data @
            P 28 @ (if additionalInfo \<noteq> []
                    then testInfoPanel (generateTestInfoSection H additionalInfo) else []) @
            P 29)))"

section \<open>htmlReport\<close>

text \<open>
  The options object; \<^verbatim>\<open>debug\<close> only decides whether the summary is written to the
  console.
\<close>

record reportOptions =
  opt_title :: "string option"
  opt_subtitle :: "string option"
  opt_httpMethod :: "string option"
  opt_additionalInfo :: "(string \<times> jsval) list option"
  opt_debug :: "bool option"

text \<open>\<^verbatim>\<open>s.replace("T", " ")\<close>: only the first match is replaced.\<close>

fun replaceFirst :: "char \<Rightarrow> string \<Rightarrow> string \<Rightarrow> string" where
  "replaceFirst p r [] = []"
| "replaceFirst p r (c # cs) = (if c = p then r @ cs else c # replaceFirst p r cs)"

definition defaultTitle :: "host \<Rightarrow> string" where
  "defaultTitle H = replaceFirst (CHR ''T'') '' '' (take 16 (isoNow H))"

definition stringOr :: "string option \<Rightarrow> string \<Rightarrow> string" where
  "stringOr s d = (case s of None \<Rightarrow> d | Some t \<Rightarrow> if t = [] then d else t)"

definition htmlReport :: "host \<Rightarrow> frame \<Rightarrow> Summary \<Rightarrow> reportOptions \<Rightarrow> string option" where
  "htmlReport H P data options =
     (let title = stringOr (opt_title options) (defaultTitle H);
          subtitle = stringOr (opt_subtitle options) [];
          httpMethod = stringOr (opt_httpMethod options) [];
          additionalInfo = (case opt_additionalInfo options of None \<Rightarrow> [] | Some a \<Rightarrow> a)
      in case calculateStats H data of
           None \<Rightarrow> None
         | Some stats \<Rightarrow>
             generateModernHTML H P data title subtitle httpMethod additionalInfo stats)"

section \<open>Notions the statements use\<close>



text \<open>
  The threshold expressions of a metric whose \<^verbatim>\<open>ok\<close> is not \<^verbatim>\<open>true\<close>, the thresholds
  of a metric (none when the mapping is absent), and the metrics that carry a
  \<^verbatim>\<open>thresholds\<close> mapping.
\<close>

definition falsyCount :: "(string \<times> ThresholdResult) list \<Rightarrow> nat" where
  "falsyCount ts = length (filter (\<lambda>t. ok (snd t) \<noteq> Some True) ts)"

definition thresholdsOrEmpty :: "Metric \<Rightarrow> (string \<times> ThresholdResult) list" where
  "thresholdsOrEmpty m = (case thresholds m of None \<Rightarrow> [] | Some ts \<Rightarrow> ts)"

definition withThresholds :: "(string \<times> Metric) list \<Rightarrow> (string \<times> Metric) list" where
  "withThresholds ms = filter (\<lambda>e. thresholds (snd e) \<noteq> None) ms"

definition checksOrEmpty :: "Check list option \<Rightarrow> Check list" where
  "checksOrEmpty cs = (case cs of None \<Rightarrow> [] | Some l \<Rightarrow> l)"

text \<open>
  The two check tallies as \<^verbatim>\<open>calculateStats\<close> adds them up: the checks of the root group,
  then those of each of its groups in turn.
\<close>

definition passTally :: "host \<Rightarrow> Group \<Rightarrow> jsnum" where
  "passTally H rg =
     foldl jsAdd (fst (countChecks H (checksOrEmpty (checks rg))))
       (map (\<lambda>g. fst (countChecks H (checksOrEmpty (checks g)))) (groupsOrEmpty (groups rg)))"

definition failTally :: "host \<Rightarrow> Group \<Rightarrow> jsnum" where
  "failTally H rg =
     foldl jsAdd (snd (countChecks H (checksOrEmpty (checks rg))))
       (map (\<lambda>g. snd (countChecks H (checksOrEmpty (checks g)))) (groupsOrEmpty (groups rg)))"



text \<open>A host for the examples: it prints large numbers the way V8 prints \<open>10^21\<close>.\<close>

definition exampleHost :: host where
  "exampleHost =
     \<lparr>printNumber = (\<lambda>x. ''1e+21''), localeNumber = (\<lambda>x. ''1,000''),
      isoNow = ''2026-01-02T03:04:05.678Z'', localeNow = ''1/2/2026, 3:04:05 AM''\<rparr>"

definition emptyGroup :: Group where
  "emptyGroup = Group None None None"


text \<open>
  The metrics whose \<^verbatim>\<open>values\<close> the aggregator reads, and a metric that is present
  without \<^verbatim>\<open>values\<close>.
\<close>

definition aggregatedMetrics :: "string list" where
  "aggregatedMetrics =
     [''http_reqs'', ''http_req_failed'', ''http_req_duration'', ''vus'', ''iterations'',
      ''data_received'', ''data_sent'']"

definition lacksValues :: "Summary \<Rightarrow> string \<Rightarrow> bool" where
  "lacksValues data name =
     (case metrics data of
        None \<Rightarrow> False
      | Some ms \<Rightarrow>
          (case map_of ms name of None \<Rightarrow> False | Some m \<Rightarrow> metric_values m = None))"


text \<open>The metrics that carry a \<^verbatim>\<open>thresholds\<close> mapping with at least one entry.\<close>

definition nonEmptyThresholds :: "(string \<times> Metric) list \<Rightarrow> (string \<times> Metric) list" where
  "nonEmptyThresholds ms = filter (\<lambda>e. thresholdsOrEmpty (snd e) \<noteq> []) ms"

definition emptyThresholdsMetrics :: "(string \<times> Metric) list" where
  "emptyThresholdsMetrics =
     [(''checks'', \<lparr>metric_values = Some [''rate'' \<mapsto> 1], thresholds = Some []\<rparr>)]"

definition emptyThresholdsExample :: Summary where
  "emptyThresholdsExample =
     \<lparr>metrics = Some emptyThresholdsMetrics, root_group = Some emptyGroup\<rparr>"

definition twoThresholdsMetrics :: "(string \<times> Metric) list" where
  "twoThresholdsMetrics =
     [(''http_req_duration'',
         \<lparr>metric_values = Some [''p(95)'' \<mapsto> 420],
          thresholds = Some [(''p(95)<1000'', \<lparr>ok = Some True\<rparr>)]\<rparr>),
      (''checks'',
         \<lparr>metric_values = Some [''rate'' \<mapsto> 4 / 5],
          thresholds = Some [(''rate==1.00'', \<lparr>ok = Some False\<rparr>)]\<rparr>)]"

definition twoThresholdsExample :: Summary where
  "twoThresholdsExample =
     \<lparr>metrics = Some twoThresholdsMetrics, root_group = Some emptyGroup\<rparr>"











definition missingCountExample :: Summary where
  "missingCountExample =
     \<lparr>metrics = Some
        [(''data_received'', \<lparr>metric_values = Some Map.empty, thresholds = None\<rparr>),
         (''http_req_duration'', \<lparr>metric_values = Some Map.empty, thresholds = None\<rparr>)],
      root_group = Some emptyGroup\<rparr>"





definition emptyFrame :: frame where
  "emptyFrame = (\<lambda>i. [])"





definition contains :: "string \<Rightarrow> string \<Rightarrow> bool" where
  "contains p doc = list_ex (\<lambda>i. take (length p) (drop i doc) = p) [0..<Suc (length doc)]"

definition passingExample :: Summary where
  "passingExample =
     \<lparr>metrics = Some
        [(''http_reqs'', \<lparr>metric_values = Some [''count'' \<mapsto> 200], thresholds = None\<rparr>),
         (''http_req_failed'',
            \<lparr>metric_values = Some [''rate'' \<mapsto> 0],
             thresholds = Some [(''rate==0.00'', \<lparr>ok = Some True\<rparr>)]\<rparr>)],
      root_group = Some
        (Group None
           (Some [\<lparr>check_name = Some ''Response status 200'', passes = Some 200,
                   fails = Some 0\<rparr>])
           None)\<rparr>"

definition markupOptions :: reportOptions where
  "markupOptions =
     \<lparr>opt_title = Some ''Users API'', opt_subtitle = Some ''/users'',
      opt_httpMethod = Some ''<img src=x onerror=alert(1)>'',
      opt_additionalInfo = None, opt_debug = None\<rparr>"



section \<open>Lemmas on the steps of calculateStats\<close>



lemma ifMetric_None_iff:
  "ifMetric ms name f s = None \<longleftrightarrow> (\<exists>m. map_of ms name = Some m \<and> metric_values m = None)"
  by (auto simp: ifMetric_def split: option.splits)

lemma ifMetric_frame:
  assumes "ifMetric ms name f s = Some s'" and "\<And>v t. sel (f v t) = sel t"
  shows "sel s' = sel s"
  using assms by (auto simp: ifMetric_def split: option.splits)

lemma fold_frame:
  assumes "\<And>x t. sel (f x t) = sel t"
  shows "sel (fold f xs s) = sel s"
  using assms by (induction xs arbitrary: s) auto

lemma calculateStats_Some_iff:
  "calculateStats H data = Some stats \<longleftrightarrow>
     (\<exists>ms rg s1 s2 s3 s4 s5 s6 s7.
        metrics data = Some ms \<and> root_group data = Some rg \<and>
        ifMetric ms ''http_reqs'' requestCount initialStats = Some s1 \<and>
        ifMetric ms ''http_req_failed'' (failureRates H) s1 = Some s2 \<and>
        ifMetric ms ''http_req_duration'' (responseTimes H) s2 = Some s3 \<and>
        ifMetric ms ''vus'' (virtualUsers H) s3 = Some s4 \<and>
        ifMetric ms ''iterations'' iterationCount s4 = Some s5 \<and>
        ifMetric ms ''data_received'' (received H) s5 = Some s6 \<and>
        ifMetric ms ''data_sent'' (sent H) s6 = Some s7 \<and>
        stats = (let s10 = fold (\<lambda>g. addChecks H (checks g)) (groupsOrEmpty (groups rg))
                             (addChecks H (checks rg) (fold countMetric ms s7))
                 in s10\<lparr>totalChecks := jsAdd (checkPasses s10) (checkFailures s10)\<rparr>))"
  unfolding calculateStats_def Let_def bind_eq_Some_conv by auto

lemma fold_countThreshold:
  "fold countThreshold ts s = s\<lparr>thresholdFailures := thresholdFailures s + falsyCount ts\<rparr>"
  by (induction ts arbitrary: s) (simp_all add: countThreshold_def falsyCount_def)

lemma countMetric_eq:
  "countMetric e s =
     s\<lparr>thresholdCount := thresholdCount s + (if thresholds (snd e) = None then 0 else 1),
       thresholdFailures := thresholdFailures s + falsyCount (thresholdsOrEmpty (snd e))\<rparr>"
  by (cases "thresholds (snd e)")
    (simp_all add: countMetric_def withThresholds_def thresholdsOrEmpty_def fold_countThreshold
      falsyCount_def)

lemma withThresholds_Cons:
  "length (withThresholds (e # ms)) =
     (if thresholds (snd e) = None then 0 else 1) + length (withThresholds ms)"
  by (simp add: withThresholds_def)

lemma fold_countMetric:
  "fold countMetric ms s =
     s\<lparr>thresholdCount := thresholdCount s + length (withThresholds ms),
       thresholdFailures :=
         thresholdFailures s + (\<Sum>e\<leftarrow>ms. falsyCount (thresholdsOrEmpty (snd e)))\<rparr>"
proof (induction ms arbitrary: s)
  case Nil
  then show ?case by (simp add: withThresholds_def)
next
  case (Cons e ms)
  have "fold countMetric (e # ms) s = fold countMetric ms (countMetric e s)"
    by simp
  also have "\<dots> =
      (countMetric e s)\<lparr>thresholdCount :=
          thresholdCount (countMetric e s) + length (withThresholds ms),
        thresholdFailures :=
          thresholdFailures (countMetric e s)
            + (\<Sum>e\<leftarrow>ms. falsyCount (thresholdsOrEmpty (snd e)))\<rparr>"
    by (rule Cons.IH)
  also have "\<dots> =
      s\<lparr>thresholdCount := thresholdCount s + length (withThresholds (e # ms)),
        thresholdFailures :=
          thresholdFailures s + (\<Sum>e\<leftarrow>e # ms. falsyCount (thresholdsOrEmpty (snd e)))\<rparr>"
    by (simp add: countMetric_eq withThresholds_Cons)
  finally show ?case .
qed

lemma jsAdd_zero [simp]: "jsAdd p (Num 0) = p"
  by (cases p) (simp_all add: jsAdd_def)

lemma addChecks_eq:
  "addChecks H c s =
     s\<lparr>checkPasses := jsAdd (checkPasses s) (fst (countChecks H (checksOrEmpty c))),
       checkFailures := jsAdd (checkFailures s) (snd (countChecks H (checksOrEmpty c)))\<rparr>"
  by (cases c) (simp_all add: addChecks_def checksOrEmpty_def countChecks_def)

lemma fold_addChecks:
  "fold (\<lambda>g. addChecks H (checks g)) gs s =
     s\<lparr>checkPasses :=
         foldl jsAdd (checkPasses s) (map (\<lambda>g. fst (countChecks H (checksOrEmpty (checks g)))) gs),
       checkFailures :=
         foldl jsAdd (checkFailures s) (map (\<lambda>g. snd (countChecks H (checksOrEmpty (checks g)))) gs)\<rparr>"
proof (induction gs arbitrary: s)
  case Nil
  show ?case by simp
next
  case (Cons g gs)
  have "fold (\<lambda>g. addChecks H (checks g)) (g # gs) s =
        fold (\<lambda>g. addChecks H (checks g)) gs (addChecks H (checks g) s)"
    by simp
  also have "\<dots> =
      (addChecks H (checks g) s)\<lparr>checkPasses :=
          foldl jsAdd (checkPasses (addChecks H (checks g) s))
            (map (\<lambda>g. fst (countChecks H (checksOrEmpty (checks g)))) gs),
        checkFailures :=
          foldl jsAdd (checkFailures (addChecks H (checks g) s))
            (map (\<lambda>g. snd (countChecks H (checksOrEmpty (checks g)))) gs)\<rparr>"
    by (rule Cons.IH)
  also have "\<dots> =
      s\<lparr>checkPasses :=
          foldl jsAdd (checkPasses s)
            (map (\<lambda>g. fst (countChecks H (checksOrEmpty (checks g)))) (g # gs)),
        checkFailures :=
          foldl jsAdd (checkFailures s)
            (map (\<lambda>g. snd (countChecks H (checksOrEmpty (checks g)))) (g # gs))\<rparr>"
    by (simp add: addChecks_eq)
  finally show ?case .
qed

subsection \<open>Digits\<close>











lemma later_blocks_frame:
  assumes "ifMetric ms n3 (responseTimes H) s2 = Some s3"
    and "ifMetric ms n4 (virtualUsers H) s3 = Some s4"
    and "ifMetric ms n5 iterationCount s4 = Some s5"
    and "ifMetric ms n6 (received H) s5 = Some s6"
    and "ifMetric ms n7 (sent H) s6 = Some s7"
    and "\<And>v t. sel (responseTimes H v t) = sel t"
    and "\<And>v t. sel (virtualUsers H v t) = sel t"
    and "\<And>v t. sel (iterationCount v t) = sel t"
    and "\<And>v t. sel (received H v t) = sel t"
    and "\<And>v t. sel (sent H v t) = sel t"
  shows "sel s7 = sel s2"
proof -
  have "sel s7 = sel s6" using assms(5,10) by (rule ifMetric_frame)
  also have "\<dots> = sel s5" using assms(4,9) by (rule ifMetric_frame)
  also have "\<dots> = sel s4" using assms(3,8) by (rule ifMetric_frame)
  also have "\<dots> = sel s3" using assms(2,7) by (rule ifMetric_frame)
  also have "\<dots> = sel s2" using assms(1,6) by (rule ifMetric_frame)
  finally show ?thesis .
qed

lemma jsAdd_zero_left [simp]: "jsAdd (Num 0) p = p"
  by (cases p) (simp_all add: jsAdd_def)

lemma calculateStats_SomeD:
  assumes "calculateStats H data = Some stats"
  shows "\<exists>ms rg s1 s2 s3 s4 s5 s6 s7.
        metrics data = Some ms \<and> root_group data = Some rg \<and>
        ifMetric ms ''http_reqs'' requestCount initialStats = Some s1 \<and>
        ifMetric ms ''http_req_failed'' (failureRates H) s1 = Some s2 \<and>
        ifMetric ms ''http_req_duration'' (responseTimes H) s2 = Some s3 \<and>
        ifMetric ms ''vus'' (virtualUsers H) s3 = Some s4 \<and>
        ifMetric ms ''iterations'' iterationCount s4 = Some s5 \<and>
        ifMetric ms ''data_received'' (received H) s5 = Some s6 \<and>
        ifMetric ms ''data_sent'' (sent H) s6 = Some s7 \<and>
        stats =
          s7\<lparr>thresholdCount := length (withThresholds ms),
             thresholdFailures := (\<Sum>e\<leftarrow>ms. falsyCount (thresholdsOrEmpty (snd e))),
             checkPasses := passTally H rg,
             checkFailures := failTally H rg,
             totalChecks := jsAdd (passTally H rg) (failTally H rg)\<rparr>"
proof -
  from assms obtain ms rg s1 s2 s3 s4 s5 s6 s7 where
    m: "metrics data = Some ms" and r: "root_group data = Some rg"
    and c1: "ifMetric ms ''http_reqs'' requestCount initialStats = Some s1"
    and c2: "ifMetric ms ''http_req_failed'' (failureRates H) s1 = Some s2"
    and c3: "ifMetric ms ''http_req_duration'' (responseTimes H) s2 = Some s3"
    and c4: "ifMetric ms ''vus'' (virtualUsers H) s3 = Some s4"
    and c5: "ifMetric ms ''iterations'' iterationCount s4 = Some s5"
    and c6: "ifMetric ms ''data_received'' (received H) s5 = Some s6"
    and c7: "ifMetric ms ''data_sent'' (sent H) s6 = Some s7"
    and st: "stats = (let s10 = fold (\<lambda>g. addChecks H (checks g)) (groupsOrEmpty (groups rg))
                             (addChecks H (checks rg) (fold countMetric ms s7))
                 in s10\<lparr>totalChecks := jsAdd (checkPasses s10) (checkFailures s10)\<rparr>)"
    unfolding calculateStats_Some_iff by blast
  define tl where "tl s = (thresholdCount s, thresholdFailures s, checkPasses s, checkFailures s)" for s :: DerivedStats
  have "tl s7 = tl s2"
    by (rule later_blocks_frame [OF c3 c4 c5 c6 c7])
      (simp_all add: tl_def responseTimes_def virtualUsers_def iterationCount_def received_def sent_def)
  also have "\<dots> = tl s1"
    by (rule ifMetric_frame [OF c2]) (simp add: tl_def failureRates_def Let_def)
  also have "\<dots> = tl initialStats"
    by (rule ifMetric_frame [OF c1]) (simp add: tl_def requestCount_def)
  finally have z: "thresholdCount s7 = 0" "thresholdFailures s7 = 0" "checkPasses s7 = Num 0"
    "checkFailures s7 = Num 0"
    by (simp_all add: tl_def initialStats_def)
  have "stats =
          s7\<lparr>thresholdCount := length (withThresholds ms),
             thresholdFailures := (\<Sum>e\<leftarrow>ms. falsyCount (thresholdsOrEmpty (snd e))),
             checkPasses := passTally H rg,
             checkFailures := failTally H rg,
             totalChecks := jsAdd (passTally H rg) (failTally H rg)\<rparr>"
    unfolding st Let_def fold_addChecks addChecks_eq fold_countMetric passTally_def failTally_def
    by (simp add: z)
  with m r c1 c2 c3 c4 c5 c6 c7 show ?thesis by blast
qed





















section \<open>Where the report throws\<close>

lemma ifMetric_None_lacks:
  "metrics data = Some ms \<Longrightarrow> ifMetric ms name f s = None \<longleftrightarrow> lacksValues data name"
  by (auto simp: ifMetric_None_iff lacksValues_def split: option.splits)

lemma calculateStats_None_iff:
  "calculateStats H data = None \<longleftrightarrow>
     metrics data = None \<or> root_group data = None \<or>
     (\<exists>name \<in> set aggregatedMetrics. lacksValues data name)"
proof (cases "metrics data")
  case None
  then show ?thesis by (simp add: calculateStats_def)
next
  case (Some ms)
  note k = ifMetric_None_lacks [OF Some]
  show ?thesis
    unfolding calculateStats_def Let_def
    by (auto simp: Some bind_eq_None_conv k aggregatedMetrics_def)
qed

lemma metricRows_None_iff:
  "metrics data = Some ms \<Longrightarrow>
     metricRows H ms names = None \<longleftrightarrow> (\<exists>name \<in> set names. lacksValues data name)"
  by (induction names) (auto simp: lacksValues_def split: option.splits)

lemma generateMetricsTable_None_iff:
  "generateMetricsTable H data = None \<longleftrightarrow>
     metrics data = None \<or> (\<exists>name \<in> set standardMetrics. lacksValues data name)"
  by (cases "metrics data") (simp_all add: generateMetricsTable_def metricRows_None_iff)

lemma generateChecksSection_None_iff:
  "generateChecksSection H data = None \<longleftrightarrow> root_group data = None"
  by (simp add: generateChecksSection_def Let_def split: option.splits)

lemma generateModernHTML_None_iff:
  "generateModernHTML H P data title subtitle httpMethod additionalInfo stats = None \<longleftrightarrow>
     generateMetricsTable H data = None \<or> generateChecksSection H data = None"
  by (simp add: generateModernHTML_def split: option.splits)

lemma htmlReport_None_iff:
  "htmlReport H P data options = None \<longleftrightarrow>
     metrics data = None \<or> root_group data = None \<or>
     (\<exists>name \<in> set (aggregatedMetrics @ standardMetrics). lacksValues data name)"
proof (cases "calculateStats H data")
  case None
  then show ?thesis
    using calculateStats_None_iff [of H data] by (auto simp: htmlReport_def Let_def)
next
  case (Some stats)
  then have "htmlReport H P data options = None \<longleftrightarrow>
      generateMetricsTable H data = None \<or> generateChecksSection H data = None"
    by (simp add: htmlReport_def Let_def generateModernHTML_None_iff)
  moreover from Some have "\<not> (metrics data = None \<or> root_group data = None \<or>
     (\<exists>name \<in> set aggregatedMetrics. lacksValues data name))"
    using calculateStats_None_iff [of H data] by simp
  ultimately show ?thesis
    by (auto simp: generateMetricsTable_None_iff generateChecksSection_None_iff)
qed

section \<open>The two rates\<close>


section \<open>Evaluating examples\<close>

lemma floor_rat_numeral [simp]:
  "\<lfloor>(numeral a :: rat) / numeral b\<rfloor> = numeral a div numeral b"
  by (metis floor_divide_of_int_eq of_int_numeral)

lemma calculateStats_returns:
  assumes "metrics data \<noteq> None" and "root_group data \<noteq> None"
    and "list_all (\<lambda>name. \<not> lacksValues data name) aggregatedMetrics"
  shows "\<exists>stats. calculateStats H data = Some stats"
proof -
  from assms have "calculateStats H data \<noteq> None"
    unfolding calculateStats_None_iff by (simp add: list_all_iff)
  then show ?thesis by blast
qed

section \<open>The threshold tally\<close>

lemma threshold_tally:
  assumes "calculateStats H data = Some stats" and "metrics data = Some ms"
  shows "thresholdCount stats = length (withThresholds ms)"
    and "thresholdFailures stats = (\<Sum>e\<leftarrow>ms. falsyCount (thresholdsOrEmpty (snd e)))"
  using calculateStats_SomeD [OF assms(1)] assms(2) by auto

section \<open>The check tally\<close>


















section \<open>Single fields of the result\<close>


lemma transfer_fields:
  assumes "calculateStats H data = Some stats" and "metrics data = Some ms"
  shows "\<exists>s2 s3 s5 s6.
           ifMetric ms ''http_req_duration'' (responseTimes H) s2 = Some s3 \<and>
           ifMetric ms ''data_received'' (received H) s5 = Some s6 \<and>
           avgResponseTime s2 = VNum (Num 0) \<and> dataReceived s5 = VNum (Num 0) \<and>
           avgResponseTime stats = avgResponseTime s3 \<and>
           dataReceived stats = dataReceived s6"
proof -
  from calculateStats_SomeD [OF assms(1)] assms(2) obtain rg s1 s2 s3 s4 s5 s6 s7 where
    c1: "ifMetric ms ''http_reqs'' requestCount initialStats = Some s1"
    and c2: "ifMetric ms ''http_req_failed'' (failureRates H) s1 = Some s2"
    and c3: "ifMetric ms ''http_req_duration'' (responseTimes H) s2 = Some s3"
    and c4: "ifMetric ms ''vus'' (virtualUsers H) s3 = Some s4"
    and c5: "ifMetric ms ''iterations'' iterationCount s4 = Some s5"
    and c6: "ifMetric ms ''data_received'' (received H) s5 = Some s6"
    and c7: "ifMetric ms ''data_sent'' (sent H) s6 = Some s7"
    and st: "stats =
          s7\<lparr>thresholdCount := length (withThresholds ms),
             thresholdFailures := (\<Sum>e\<leftarrow>ms. falsyCount (thresholdsOrEmpty (snd e))),
             checkPasses := passTally H rg,
             checkFailures := failTally H rg,
             totalChecks := jsAdd (passTally H rg) (failTally H rg)\<rparr>"
    by auto
  have a2: "avgResponseTime s2 = avgResponseTime s1"
    by (rule ifMetric_frame [OF c2]) (simp add: failureRates_def Let_def)
  have a1: "avgResponseTime s1 = avgResponseTime initialStats"
    by (rule ifMetric_frame [OF c1]) (simp add: requestCount_def)
  have d5: "dataReceived s5 = dataReceived s4"
    by (rule ifMetric_frame [OF c5]) (simp add: iterationCount_def)
  have d4: "dataReceived s4 = dataReceived s3"
    by (rule ifMetric_frame [OF c4]) (simp add: virtualUsers_def)
  have d3: "dataReceived s3 = dataReceived s2"
    by (rule ifMetric_frame [OF c3]) (simp add: responseTimes_def)
  have d2: "dataReceived s2 = dataReceived s1"
    by (rule ifMetric_frame [OF c2]) (simp add: failureRates_def Let_def)
  have d1: "dataReceived s1 = dataReceived initialStats"
    by (rule ifMetric_frame [OF c1]) (simp add: requestCount_def)
  have a7: "avgResponseTime s7 = avgResponseTime s6"
    by (rule ifMetric_frame [OF c7]) (simp add: sent_def)
  have a6: "avgResponseTime s6 = avgResponseTime s5"
    by (rule ifMetric_frame [OF c6]) (simp add: received_def)
  have a5: "avgResponseTime s5 = avgResponseTime s4"
    by (rule ifMetric_frame [OF c5]) (simp add: iterationCount_def)
  have a4: "avgResponseTime s4 = avgResponseTime s3"
    by (rule ifMetric_frame [OF c4]) (simp add: virtualUsers_def)
  have d7: "dataReceived s7 = dataReceived s6"
    by (rule ifMetric_frame [OF c7]) (simp add: sent_def)
  have "avgResponseTime s2 = VNum (Num 0)" "dataReceived s5 = VNum (Num 0)"
    by (simp_all add: a2 a1 d5 d4 d3 d2 d1 initialStats_def)
  moreover have "avgResponseTime stats = avgResponseTime s3" "dataReceived stats = dataReceived s6"
    by (simp_all add: st a7 a6 a5 a4 d7)
  ultimately show ?thesis using c3 c6 by blast
qed

lemma floor_rat_one_numeral [simp]: "\<lfloor>(1 :: rat) / numeral b\<rfloor> = 1 div numeral b"
  by (metis floor_divide_of_int_eq of_int_1 of_int_numeral)


section \<open>Escaping\<close>


section \<open>Parts of the document\<close>

lemma contains_iff: "contains p doc \<longleftrightarrow> (\<exists>a b. doc = a @ p @ b)"
proof
  assume "contains p doc"
  then obtain i where i: "take (length p) (drop i doc) = p"
    by (auto simp: contains_def list_ex_iff)
  have "doc = take i doc @ take (length p) (drop i doc) @ drop (length p) (drop i doc)"
    by (simp only: append_take_drop_id)
  with i show "\<exists>a b. doc = a @ p @ b" by metis
next
  assume "\<exists>a b. doc = a @ p @ b"
  then obtain a b where doc: "doc = a @ p @ b" by blast
  have "take (length p) (drop (length a) doc) = p" by (simp add: doc)
  moreover have "length a < Suc (length doc)" by (simp add: doc)
  ultimately show "contains p doc"
    unfolding contains_def list_ex_iff by (metis atLeast_upt lessThan_iff)
qed

lemma contains_later: "contains p r \<Longrightarrow> contains p (a @ r)"
  unfolding contains_iff by (metis append.assoc)

lemma contains_first: "contains p m \<Longrightarrow> contains p (m @ r)"
  unfolding contains_iff by (metis append.assoc)

lemma contains_self: "contains p p"
  unfolding contains_iff by (metis append_Nil append_Nil2)

lemma methodBadge_raw:
  assumes "httpMethod \<noteq> []"
  shows "contains httpMethod (methodBadge httpMethod)"
  unfolding methodBadge_def if_P [OF assms]
  by (rule contains_later, rule contains_first, rule contains_self)

lemma headerStatus_raw:
  assumes "subtitle \<noteq> []" and "httpMethod \<noteq> []"
  shows "contains httpMethod (headerStatus H subtitle httpMethod b)"
  unfolding headerStatus_def if_P [OF assms(1)]
  by (rule contains_later, rule contains_later, rule contains_later, rule contains_first,
      rule methodBadge_raw [OF assms(2)])

lemma generateModernHTML_raw:
  assumes "generateModernHTML H P data title subtitle httpMethod additionalInfo stats = Some doc"
    and "subtitle \<noteq> []" and "httpMethod \<noteq> []"
  shows "contains httpMethod doc"
proof -
  from assms(1) obtain rest where
    "doc = (P 0 @ escapeHtml H (VStr title) @ P 1 @ headerBackground (testStatus stats) @
            P 2 @ escapeHtml H (VStr title) @ P 3) @
           headerStatus H subtitle httpMethod (testStatus stats) @ rest"
    by (auto simp: generateModernHTML_def split: option.splits)
  then show ?thesis
    using contains_later [OF contains_first [OF headerStatus_raw [OF assms(2,3)]]] by blast
qed

section \<open>The request counts\<close>


section \<open>The head of the document\<close>







section \<open>The claims\<close>





text \<open>
  C3, as the claim words it: \<^verbatim>\<open>thresholdCount\<close> counts the metrics that carry a non-empty
  \<^verbatim>\<open>thresholds\<close> mapping. A metric whose mapping is empty is counted as well:
  \<^verbatim>\<open>if (thresholds)\<close> holds for every object.
\<close>

theorem C3_counterexample:
  "metrics emptyThresholdsExample = Some emptyThresholdsMetrics \<and>
   length (nonEmptyThresholds emptyThresholdsMetrics) = 0 \<and>
   map_option thresholdCount (calculateStats exampleHost emptyThresholdsExample) = Some 1"
proof -
  have m: "metrics emptyThresholdsExample = Some emptyThresholdsMetrics"
    by (simp add: emptyThresholdsExample_def)
  obtain s where s: "calculateStats exampleHost emptyThresholdsExample = Some s"
    using calculateStats_returns [of emptyThresholdsExample exampleHost]
    by (auto simp: emptyThresholdsExample_def emptyThresholdsMetrics_def aggregatedMetrics_def
        lacksValues_def)
  have "thresholdCount s = 1"
    using threshold_tally(1) [OF s m]
    by (simp add: withThresholds_def emptyThresholdsMetrics_def)
  moreover have "length (nonEmptyThresholds emptyThresholdsMetrics) = 0"
    by (simp add: nonEmptyThresholds_def emptyThresholdsMetrics_def thresholdsOrEmpty_def)
  ultimately show ?thesis by (simp add: s m)
qed

text \<open>
  C3, amended. \<^verbatim>\<open>thresholdCount\<close> is the number of metrics that carry a \<^verbatim>\<open>thresholds\<close>
  mapping, empty or not, whatever the number of expressions in it; \<^verbatim>\<open>thresholdFailures\<close>
  is the number of threshold expressions, over all metrics, whose \<^verbatim>\<open>ok\<close> is not
  \<^verbatim>\<open>true\<close>. Two metrics with one threshold each, one passed and one failed, give 2 and 1.
\<close>

theorem C3_threshold_tally:
  assumes "calculateStats H data = Some stats" and "metrics data = Some ms"
  shows "thresholdCount stats = length (withThresholds ms) \<and>
         thresholdFailures stats = (\<Sum>e\<leftarrow>ms. falsyCount (thresholdsOrEmpty (snd e)))"
  using threshold_tally [OF assms] by simp

theorem C3_witness:
  "calculateStats exampleHost twoThresholdsExample \<noteq> None \<and>
   metrics twoThresholdsExample = Some twoThresholdsMetrics \<and>
   map_option thresholdCount (calculateStats exampleHost twoThresholdsExample) = Some 2 \<and>
   map_option thresholdFailures (calculateStats exampleHost twoThresholdsExample) = Some 1"
proof -
  have m: "metrics twoThresholdsExample = Some twoThresholdsMetrics"
    by (simp add: twoThresholdsExample_def)
  obtain s where s: "calculateStats exampleHost twoThresholdsExample = Some s"
    using calculateStats_returns [of twoThresholdsExample exampleHost]
    by (auto simp: twoThresholdsExample_def twoThresholdsMetrics_def aggregatedMetrics_def
        lacksValues_def)
  from C3_threshold_tally [OF s m]
  have "thresholdCount s = 2 \<and> thresholdFailures s = 1"
    by (simp add: withThresholds_def twoThresholdsMetrics_def thresholdsOrEmpty_def
        falsyCount_def)
  then show ?thesis by (simp add: s m)
qed




text \<open>
  C5. The claim has every caller-supplied string escaped before it enters the document,
  \<^verbatim>\<open>httpMethod\<close> among them. The header interpolates \<^verbatim>\<open>httpMethod\<close> as it is, twice,
  while the title and the subtitle beside it go through \<^verbatim>\<open>escapeHtml\<close>: with a
  subtitle set and \<^verbatim>\<open>httpMethod\<close> an \<^verbatim>\<open>img\<close> tag, the tag is in the document unescaped.
\<close>

theorem C5_httpMethod_is_not_escaped:
  "map_option (contains ''<img src=x onerror=alert(1)>'')
     (htmlReport exampleHost emptyFrame passingExample markupOptions) = Some True \<and>
   escapeHtml exampleHost (VStr ''<img src=x onerror=alert(1)>'')
     = ''&lt;img src=x onerror=alert(1)&gt;''"
proof -
  have "htmlReport exampleHost emptyFrame passingExample markupOptions \<noteq> None"
    unfolding htmlReport_None_iff
    by (simp add: passingExample_def aggregatedMetrics_def standardMetrics_def lacksValues_def)
  then obtain doc where doc: "htmlReport exampleHost emptyFrame passingExample markupOptions = Some doc"
    by blast
  then obtain stats where
    "generateModernHTML exampleHost emptyFrame passingExample ''Users API'' ''/users''
       ''<img src=x onerror=alert(1)>'' [] stats = Some doc"
    by (auto simp: htmlReport_def Let_def markupOptions_def stringOr_def split: option.splits)
  then have "contains ''<img src=x onerror=alert(1)>'' doc"
    by (rule generateModernHTML_raw) simp_all
  moreover have "escapeHtml exampleHost (VStr ''<img src=x onerror=alert(1)>'')
     = ''&lt;img src=x onerror=alert(1)&gt;''"
    by (simp add: escapeHtml_def jsString_def specials_def entityMap_def)
  ultimately show ?thesis by (simp add: doc)
qed



text \<open>
  C7. The claim has every derived field at its zero default when the field it is read from
  is absent, the two byte counts included. For \<^verbatim>\<open>data_received\<close> (and \<^verbatim>\<open>data_sent\<close>)
  the code divides \<^verbatim>\<open>values.count\<close> without the \<^verbatim>\<open>|| 0\<close> that every other field has: on
  a summary whose \<^verbatim>\<open>data_received\<close> and \<^verbatim>\<open>http_req_duration\<close> both have empty
  \<^verbatim>\<open>values\<close>, \<^verbatim>\<open>dataReceived\<close> is the string \<^verbatim>\<open>NaN\<close> while \<^verbatim>\<open>avgResponseTime\<close> is
  \<^verbatim>\<open>0.00\<close>.
\<close>

theorem C7_missing_count_prints_NaN:
  "map_option dataReceived (calculateStats exampleHost missingCountExample) = Some (VStr ''NaN'') \<and>
   map_option avgResponseTime (calculateStats exampleHost missingCountExample)
     = Some (VStr ''0.00'')"
proof -
  obtain s where s: "calculateStats exampleHost missingCountExample = Some s"
    using calculateStats_returns [of missingCountExample exampleHost]
    by (auto simp: missingCountExample_def aggregatedMetrics_def lacksValues_def)
  have m: "metrics missingCountExample = Some
        [(''data_received'', \<lparr>metric_values = Some Map.empty, thresholds = None\<rparr>),
         (''http_req_duration'', \<lparr>metric_values = Some Map.empty, thresholds = None\<rparr>)]"
    by (simp add: missingCountExample_def)
  from transfer_fields [OF s m] obtain s2 s3 s5 s6 where
    c3: "ifMetric [(''data_received'', \<lparr>metric_values = Some Map.empty, thresholds = None\<rparr>),
         (''http_req_duration'', \<lparr>metric_values = Some Map.empty, thresholds = None\<rparr>)]
           ''http_req_duration'' (responseTimes exampleHost) s2 = Some s3"
    and c6: "ifMetric [(''data_received'', \<lparr>metric_values = Some Map.empty, thresholds = None\<rparr>),
         (''http_req_duration'', \<lparr>metric_values = Some Map.empty, thresholds = None\<rparr>)]
           ''data_received'' (received exampleHost) s5 = Some s6"
    and fin: "avgResponseTime s = avgResponseTime s3" "dataReceived s = dataReceived s6"
    by blast
  have zero: "toFixed exampleHost 2 (Num 0) = ''0.00''"
    by (simp add: toFixed_def Let_def)
  from c3 have "avgResponseTime s3 = VStr ''0.00''"
    by (auto simp: ifMetric_def responseTimes_def orZero_def zero)
  moreover from c6 have "dataReceived s6 = VStr ''NaN''"
    by (auto simp: ifMetric_def received_def megabytes_def toFixed_def)
  ultimately show ?thesis by (simp add: s fin)
qed









end
